theory Spec2Isabelle
  imports Complex_Main
begin

section \<open>JavaScript values\<close>

text \<open>
  The primitive values that reach the code under study: filter values, token claims and
  path parameters. A JavaScript number is an IEEE double; every finite double is a
  rational, and comparison of doubles is comparison of the rationals they denote, so a
  number is modelled as a rational, one of the two infinities, or NaN.
\<close>

datatype jsnum = Fin rat | PosInf | NegInf | NaN

datatype jsval = JUndefined | JNull | JBool bool | JNum jsnum | JStr string

text \<open>ToBoolean, as \<^verbatim>\<open>if (v)\<close>, \<^verbatim>\<open>||\<close> and \<^verbatim>\<open>&&\<close> apply it.\<close>

fun js_truthy :: "jsval \<Rightarrow> bool" where
  "js_truthy JUndefined = False"
| "js_truthy JNull = False"
| "js_truthy (JBool b) = b"
| "js_truthy (JNum n) = (n \<noteq> Fin 0 \<and> n \<noteq> NaN)"
| "js_truthy (JStr s) = (s \<noteq> [])"

text \<open>\<^verbatim>\<open>a || b\<close> and \<^verbatim>\<open>a && b\<close> return one of their operands.\<close>

definition js_or :: "jsval \<Rightarrow> jsval \<Rightarrow> jsval" where
  "js_or a b = (if js_truthy a then a else b)"

definition js_and :: "jsval \<Rightarrow> jsval \<Rightarrow> jsval" where
  "js_and a b = (if js_truthy a then b else a)"

text \<open>\<^verbatim>\<open>a === b\<close>: same type and same value, and NaN equals nothing.\<close>

fun js_strict_eq :: "jsval \<Rightarrow> jsval \<Rightarrow> bool" where
  "js_strict_eq (JNum a) (JNum b) = (a \<noteq> NaN \<and> a = b)"
| "js_strict_eq a b = (a = b)"

text \<open>
  ToNumber on a primitive. The conversion of a string (StringToNumber of the language) is
  a parameter \<open>str2num\<close>: nothing below depends on which numeric literal a string denotes.
\<close>

fun ToNumber :: "(string \<Rightarrow> jsnum) \<Rightarrow> jsval \<Rightarrow> jsnum" where
  "ToNumber str2num JUndefined = NaN"
| "ToNumber str2num JNull = Fin 0"
| "ToNumber str2num (JBool b) = (if b then Fin 1 else Fin 0)"
| "ToNumber str2num (JNum n) = n"
| "ToNumber str2num (JStr s) = str2num s"

text \<open>\<open>num_lt x y\<close>: the comparison \<^verbatim>\<open>x < y\<close> of two numbers; with a NaN it is false.\<close>

fun num_lt :: "jsnum \<Rightarrow> jsnum \<Rightarrow> bool" where
  "num_lt NaN y = False"
| "num_lt x NaN = False"
| "num_lt (Fin a) (Fin b) = (a < b)"
| "num_lt (Fin a) PosInf = True"
| "num_lt NegInf (Fin b) = True"
| "num_lt NegInf PosInf = True"
| "num_lt x y = False"

text \<open>Two strings compare by code units; a proper prefix is smaller.\<close>

fun str_lt :: "string \<Rightarrow> string \<Rightarrow> bool" where
  "str_lt [] [] = False"
| "str_lt [] (y # ys) = True"
| "str_lt (x # xs) [] = False"
| "str_lt (x # xs) (y # ys) =
     (if (of_char x :: nat) < of_char y then True
      else if (of_char y :: nat) < of_char x then False
      else str_lt xs ys)"

text \<open>
  \<^verbatim>\<open>a > b\<close>: two strings are compared as strings, anything else after ToNumber, as
  \<^verbatim>\<open>b < a\<close>.
\<close>

fun js_gt :: "(string \<Rightarrow> jsnum) \<Rightarrow> jsval \<Rightarrow> jsval \<Rightarrow> bool" where
  "js_gt str2num (JStr x) (JStr y) = str_lt y x"
| "js_gt str2num a b = num_lt (ToNumber str2num b) (ToNumber str2num a)"

section \<open>Objects and arrays\<close>

text \<open>
  A plain object is the list of its own enumerable string-keyed properties in the order in
  which \<^verbatim>\<open>Object.keys\<close> reports them (insertion order, for keys that are not array
  indices). Reading a property that the object does not have gives \<^verbatim>\<open>undefined\<close>.
\<close>

type_synonym jsobject = "(string \<times> jsval) list"

definition Object_keys :: "jsobject \<Rightarrow> string list" where
  "Object_keys data = map fst data"

definition Object_values :: "jsobject \<Rightarrow> jsval list" where
  "Object_values data = map snd data"

definition get_prop :: "jsobject \<Rightarrow> string \<Rightarrow> jsval" where
  "get_prop obj k = (case map_of obj k of None \<Rightarrow> JUndefined | Some v \<Rightarrow> v)"

text \<open>
  \<^verbatim>\<open>Array.prototype.map\<close> hands the callback each element and its index, counted
  from 0.
\<close>

fun map_from :: "nat \<Rightarrow> ('a \<Rightarrow> nat \<Rightarrow> 'b) \<Rightarrow> 'a list \<Rightarrow> 'b list" where
  "map_from i f [] = []"
| "map_from i f (x # xs) = f x i # map_from (Suc i) f xs"

definition array_map :: "('a \<Rightarrow> nat \<Rightarrow> 'b) \<Rightarrow> 'a list \<Rightarrow> 'b list" where
  "array_map f xs = map_from 0 f xs"

text \<open>
  \<^verbatim>\<open>Array.prototype.join\<close> on an array of strings and \<^verbatim>\<open>undefined\<close>s
  (\<open>None\<close>): an undefined element contributes the empty string, and the separator still
  stands between every two elements.
\<close>

definition join_elem :: "string option \<Rightarrow> string" where
  "join_elem e = (case e of None \<Rightarrow> [] | Some s \<Rightarrow> s)"

fun join :: "string option list \<Rightarrow> string \<Rightarrow> string" where
  "join [] sep = []"
| "join [e] sep = join_elem e"
| "join (e # es) sep = join_elem e @ sep @ join es sep"

text \<open>
  A non-negative integer inside a template literal \<^verbatim>\<open>${idx + 1}\<close> prints in decimal
  (indices of an array stay far below the \<open>10\<^sup>2\<^sup>1\<close> where the exponent notation starts).
\<close>

definition digit_char :: "nat \<Rightarrow> char" where
  "digit_char d = ''0123456789'' ! d"

fun decimal :: "nat \<Rightarrow> string" where
  "decimal n = (if n < 10 then [digit_char n] else decimal (n div 10) @ [digit_char (n mod 10)])"

declare decimal.simps [simp del]

section \<open>The company model: filter clause and filtered find\<close>

datatype error = BadRequestError string | UnauthorizedError

record query_fragment =
  setCols :: string
  "values" :: "jsval list"

text \<open>
  The callback of \<^verbatim>\<open>keys.map\<close> in \<^verbatim>\<open>_filterCompanies\<close>: three \<^verbatim>\<open>if\<close>s, each
  returning a fragment, and no return after them, so any other key gives
  \<^verbatim>\<open>undefined\<close>.
\<close>

definition filter_fragment :: "string \<Rightarrow> nat \<Rightarrow> string option" where
  \<open>filter_fragment colName idx =
     (if colName = ''minEmployees'' then Some (''num_employees >= $'' @ decimal (idx + 1))
      else if colName = ''maxEmployees'' then Some (''num_employees <=  $'' @ decimal (idx + 1))
      else if colName = ''nameLike''
        then Some (''name ILIKE '%'||$'' @ decimal (idx + 1) @ ''||'%'' @ [CHR 0x27])
      else None)\<close>

definition filters :: "string list \<Rightarrow> string option list" where
  "filters keys = array_map filter_fragment keys"

definition filterCompanies :: "jsobject \<Rightarrow> query_fragment" where
  "filterCompanies data =
     (let keys = Object_keys data in
      if length keys < 1 then \<lparr>setCols = [], values = []\<rparr>
      else
        let whereClause = ''WHERE '' in
        \<lparr>setCols = whereClause @ join (filters keys) '' AND '',
         values = Object_values data\<rparr>)"

text \<open>The text of the query of \<^verbatim>\<open>findAll\<close>, with the clause spliced in.\<close>

definition select_companies :: "string \<Rightarrow> string" where
  \<open>select_companies clause =
     ''\<newline>        SELECT handle,\<newline>               name,\<newline>               description,\<newline>               num_employees AS "numEmployees",\<newline>               logo_url      AS "logoUrl"\<newline>        FROM companies\<newline>        ''
     @ clause @ ''\<newline>        ORDER BY name''\<close>

text \<open>
  The store is a parameter \<open>db_query\<close> (query text and bound values to the store's answer,
  which includes a failure of the store itself), and every call of it is appended to the
  list \<open>queries\<close> of the calls made so far, so that a run without store interaction is a run
  that returns this list as it was.
  \<^verbatim>\<open>findAll\<close> first compares the two bounds it reads from the filter and throws; only
  then does it build the clause and the query.
\<close>

type_synonym db_log = "(string \<times> jsval list) list"

definition findAll ::
  "(string \<Rightarrow> jsnum) \<Rightarrow> (string \<Rightarrow> jsval list \<Rightarrow> 'r) \<Rightarrow> jsobject \<Rightarrow> db_log \<Rightarrow> (error + 'r) \<times> db_log"
where
  "findAll str2num db_query fltr queries =
     (let minEmployees = get_prop fltr ''minEmployees'';
          maxEmployees = get_prop fltr ''maxEmployees'' in
      if js_gt str2num minEmployees maxEmployees
      then (Inl (BadRequestError ''minEmployees must be less than maxEmployees''), queries)
      else
        let q = filterCompanies fltr;
            sql = select_companies (setCols q) in
        (Inr (db_query sql (values q)), queries @ [(sql, values q)]))"

section \<open>The authorization middleware\<close>

text \<open>
  The payload that \<^verbatim>\<open>jwt.verify\<close> returns and the middleware stores as
  \<^verbatim>\<open>res.locals.user\<close>: the two properties the gates read, each \<^verbatim>\<open>undefined\<close>
  when the payload does not carry it. \<open>user = None\<close> is a \<^verbatim>\<open>res.locals\<close> without a user.
\<close>

record payload =
  username :: jsval
  isAdmin :: jsval

record locals =
  user :: "payload option"

record response =
  locals :: locals

text \<open>
  A request: its headers (header names to string values; the object itself may be missing,
  hence \<^verbatim>\<open>req.headers?.authorization\<close>) and its path parameters.
\<close>

record request =
  headers :: "(string \<times> string) list option"
  params :: "(string \<times> string) list"

definition headers_authorization :: "request \<Rightarrow> string option" where
  "headers_authorization req =
     (case headers req of None \<Rightarrow> None | Some h \<Rightarrow> map_of h ''authorization'')"

definition params_username :: "request \<Rightarrow> jsval" where
  "params_username req =
     (case map_of (params req) ''username'' of None \<Rightarrow> JUndefined | Some s \<Rightarrow> JStr s)"

text \<open>\<^verbatim>\<open>obj?.field\<close>: \<^verbatim>\<open>undefined\<close> when there is no object.\<close>

definition opt_chain :: "'a option \<Rightarrow> ('a \<Rightarrow> jsval) \<Rightarrow> jsval" where
  "opt_chain obj field = (case obj of None \<Rightarrow> JUndefined | Some x \<Rightarrow> field x)"

text \<open>
  \<^verbatim>\<open>authHeader.replace(/^[Bb]earer /, "")\<close>: the pattern is anchored at the start and
  matches a \<^verbatim>\<open>B\<close> or a \<^verbatim>\<open>b\<close> followed by exactly \<^verbatim>\<open>earer\<close> and one space.
\<close>

fun replace_bearer :: "string \<Rightarrow> string" where
  "replace_bearer [] = []"
| "replace_bearer (c # cs) =
     (if (c = CHR ''B'' \<or> c = CHR ''b'') \<and> take 6 cs = ''earer '' then drop 6 cs else c # cs)"

text \<open>
  \<^verbatim>\<open>String.prototype.trim\<close> removes white space and line terminators at both ends.
  Header values are Latin-1 strings, where these are the code units 9 to 13, 32 and 160.
\<close>

definition is_white_space :: "char \<Rightarrow> bool" where
  "is_white_space c =
     (c \<in> set [CHR 0x09, CHR 0x0A, CHR 0x0B, CHR 0x0C, CHR 0x0D, CHR 0x20, CHR 0xA0])"

definition trim :: "string \<Rightarrow> string" where
  "trim s = rev (dropWhile is_white_space (rev (dropWhile is_white_space s)))"

text \<open>
  A middleware either hands the response on to \<open>next\<close> and returns what \<open>next\<close> returns, or
  throws. \<^verbatim>\<open>jwt.verify\<close> is a parameter: it returns the payload of the token or throws
  (\<open>Inl\<close>), and the \<^verbatim>\<open>catch\<close> of \<^verbatim>\<open>authenticateJWT\<close> swallows what it throws. An
  empty header value is falsy and skips the verification like a missing one.
\<close>

definition authenticateJWT ::
  "(string \<Rightarrow> 'k \<Rightarrow> 'e + payload) \<Rightarrow> 'k \<Rightarrow> request \<Rightarrow> response \<Rightarrow> (response \<Rightarrow> error + 'a) \<Rightarrow> error + 'a"
where
  "authenticateJWT jwt_verify SECRET_KEY req res next =
     (let authHeader = headers_authorization req;
          res' =
            (case authHeader of
               None \<Rightarrow> res
             | Some h \<Rightarrow>
                 if h = [] then res
                 else
                   let token = trim (replace_bearer h) in
                   (case jwt_verify token SECRET_KEY of
                      Inr p \<Rightarrow> res\<lparr>locals := (locals res)\<lparr>user := Some p\<rparr>\<rparr>
                    | Inl err \<Rightarrow> res))
      in next res')"

definition ensureLoggedIn :: "request \<Rightarrow> response \<Rightarrow> (response \<Rightarrow> error + 'a) \<Rightarrow> error + 'a" where
  "ensureLoggedIn req res next =
     (if js_truthy (opt_chain (user (locals res)) username) then next res
      else Inl UnauthorizedError)"

definition ensureIsAdmin :: "request \<Rightarrow> response \<Rightarrow> (response \<Rightarrow> error + 'a) \<Rightarrow> error + 'a" where
  "ensureIsAdmin req res next =
     (if js_truthy
           (js_and (JBool (js_strict_eq (opt_chain (user (locals res)) isAdmin) (JBool True)))
                   (opt_chain (user (locals res)) username))
      then next res
      else Inl UnauthorizedError)"

definition ensureIsAdminOrUser :: "request \<Rightarrow> response \<Rightarrow> (response \<Rightarrow> error + 'a) \<Rightarrow> error + 'a" where
  "ensureIsAdminOrUser req res next =
     (let curUser = user (locals res) in
      if js_truthy
           (js_or (opt_chain curUser isAdmin)
                  (JBool (js_strict_eq (opt_chain curUser username) (params_username req))))
      then next res
      else Inl UnauthorizedError)"

section \<open>The clause as the specification describes it\<close>

text \<open>
  The specification's words, to compare the code with: the three recognized keys, the
  placeholder \<^verbatim>\<open>$K\<close>, the fragment of a recognized key at position \<open>K\<close>, and fragments
  joined with \<^verbatim>\<open>AND\<close>.
\<close>

definition recognized :: "string \<Rightarrow> bool" where
  "recognized k = (k = ''minEmployees'' \<or> k = ''maxEmployees'' \<or> k = ''nameLike'')"

definition placeholder :: "nat \<Rightarrow> string" where
  "placeholder K = ''$'' @ decimal K"

definition clause_fragment :: "string \<Rightarrow> nat \<Rightarrow> string" where
  \<open>clause_fragment k K =
     (if k = ''minEmployees'' then ''num_employees >= '' @ placeholder K
      else if k = ''maxEmployees'' then ''num_employees <=  '' @ placeholder K
      else ''name ILIKE '%'||'' @ placeholder K @ ''||'%'' @ [CHR 0x27])\<close>

fun and_joined :: "string list \<Rightarrow> string" where
  "and_joined [] = []"
| "and_joined [x] = x"
| "and_joined (x # y # ys) = x @ '' AND '' @ and_joined (y # ys)"

section \<open>Collaborators for concrete runs\<close>

text \<open>
  A verifier that accepts the one token \<^verbatim>\<open>h.p.s\<close> under the key \<^verbatim>\<open>secret\<close> and
  returns the payload of \<^verbatim>\<open>alice\<close>, as \<^verbatim>\<open>jwt.verify\<close> accepts the tokens signed
  with the key and throws on every other string; a store without companies; and a
  conversion that reads no string as a number.
\<close>

definition sample_payload :: payload where
  "sample_payload = \<lparr>username = JStr ''alice'', isAdmin = JBool False\<rparr>"

definition sample_verify :: "string \<Rightarrow> string \<Rightarrow> string + payload" where
  "sample_verify token key =
     (if token = ''h.p.s'' \<and> key = ''secret'' then Inr sample_payload else Inl ''invalid token'')"

definition empty_store :: "string \<Rightarrow> jsval list \<Rightarrow> jsobject list" where
  "empty_store sql vals = []"

definition no_number :: "string \<Rightarrow> jsnum" where
  "no_number s = NaN"

section \<open>Facts about the JavaScript operators\<close>

lemma js_strict_eq_true: "js_strict_eq v (JBool True) = (v = JBool True)"
  by (cases v) auto

lemma js_truthy_iff:
  "js_truthy v = (v \<notin> {JUndefined, JNull, JBool False, JNum (Fin 0), JNum NaN, JStr []})"
  by (cases v) auto

lemma num_lt_NaN_right: "num_lt x NaN = False"
  by (cases x) simp_all

lemma js_gt_undefined_right: "js_gt str2num a JUndefined = False"
  by (cases a) simp_all

lemma js_gt_undefined_left: "js_gt str2num JUndefined b = False"
  by (cases b) (simp_all add: num_lt_NaN_right)

section \<open>Facts about arrays and strings\<close>

lemma length_map_from: "length (map_from i f xs) = length xs"
  by (induction xs arbitrary: i) simp_all

lemma nth_map_from: "k < length xs \<Longrightarrow> map_from i f xs ! k = f (xs ! k) (i + k)"
proof (induction xs arbitrary: i k)
  case Nil
  then show ?case by simp
next
  case (Cons x xs)
  show ?case
  proof (cases k)
    case 0
    then show ?thesis by simp
  next
    case (Suc j)
    with Cons.prems have "j < length xs" by simp
    from Cons.IH [OF this, of "Suc i"] Suc show ?thesis by simp
  qed
qed

lemma filter_fragment_recognized:
  "recognized k \<Longrightarrow> filter_fragment k idx = Some (clause_fragment k (idx + 1))"
  by (auto simp add: recognized_def filter_fragment_def clause_fragment_def placeholder_def)

lemma join_Some: "join (map Some xs) '' AND '' = and_joined xs"
  by (induction xs rule: and_joined.induct) (simp_all add: join_elem_def)

lemma map_from_recognized:
  "\<forall>k \<in> set ks. recognized k \<Longrightarrow>
     map_from i filter_fragment ks =
       map Some (map (\<lambda>j. clause_fragment (ks ! j) (i + j + 1)) [0 ..< length ks])"
  by (rule nth_equalityI) (simp_all add: length_map_from nth_map_from filter_fragment_recognized)

lemma replace_bearer_prefix:
  "p = ''Bearer '' \<or> p = ''bearer '' \<Longrightarrow> replace_bearer (p @ tok) = tok"
  by auto

lemma replace_bearer_no_space:
  assumes "\<forall>c \<in> set tok. \<not> is_white_space c"
  shows "replace_bearer tok = tok"
proof (cases tok)
  case Nil
  then show ?thesis by simp
next
  case (Cons c cs)
  have "take 6 cs \<noteq> ''earer ''"
  proof
    assume "take 6 cs = ''earer ''"
    then have "CHR '' '' \<in> set (take 6 cs)" by simp
    then have "CHR '' '' \<in> set cs" by (rule in_set_takeD)
    with assms Cons show False by (auto simp add: is_white_space_def)
  qed
  with Cons show ?thesis by simp
qed

lemma trim_no_space:
  assumes "\<forall>c \<in> set tok. \<not> is_white_space c"
  shows "trim tok = tok"
proof -
  have d: "dropWhile is_white_space xs = xs" if "\<forall>c \<in> set xs. \<not> is_white_space c" for xs
    using that by (cases xs) simp_all
  from assms have "\<forall>c \<in> set (rev tok). \<not> is_white_space c" by simp
  with assms show ?thesis by (simp add: trim_def d)
qed

section \<open>The filter clause\<close>

text \<open>
  Claim C5. For the filter without keys, \<^verbatim>\<open>_filterCompanies\<close> returns the empty clause
  and the empty list of bound values: no \<^verbatim>\<open>WHERE\<close> is emitted.
\<close>

theorem filterCompanies_empty:
  "filterCompanies [] = \<lparr>setCols = [], values = []\<rparr>"
  by (simp add: filterCompanies_def Object_keys_def)

text \<open>
  Claim C1 asks that a key other than \<^verbatim>\<open>minEmployees\<close>, \<^verbatim>\<open>maxEmployees\<close> and
  \<^verbatim>\<open>nameLike\<close> leaves no trace in the clause and in the bound values. The code run on
  \<^verbatim>\<open>{foo: 1, minEmployees: 5}\<close>: the callback returns \<^verbatim>\<open>undefined\<close> for
  \<^verbatim>\<open>foo\<close>, which \<^verbatim>\<open>join\<close> prints as an empty fragment in front of the first
  \<^verbatim>\<open>AND\<close>; the index of \<^verbatim>\<open>minEmployees\<close> counts \<^verbatim>\<open>foo\<close>; and
  \<^verbatim>\<open>Object.values\<close> binds the value of \<^verbatim>\<open>foo\<close> too.
\<close>

theorem filterCompanies_unrecognized_key:
  "filterCompanies [(''foo'', JNum (Fin 1)), (''minEmployees'', JNum (Fin 5))] =
     \<lparr>setCols = ''WHERE  AND num_employees >= $2'', values = [JNum (Fin 1), JNum (Fin 5)]\<rparr>"
  by (simp add: filterCompanies_def Object_keys_def Object_values_def filters_def array_map_def
      filter_fragment_def join_elem_def decimal.simps digit_char_def)

text \<open>
  Claim C3. The clause depends on the keys alone: two filters with the same keys in the same
  order get the same clause whatever their values are, and the values are handed over in
  the list of bound values, in the order of the keys.
\<close>

theorem filterCompanies_clause_from_keys:
  "map fst d1 = map fst d2 \<Longrightarrow>
     setCols (filterCompanies d1) = setCols (filterCompanies d2)
     \<and> values (filterCompanies d1) = map snd d1 \<and> values (filterCompanies d2) = map snd d2"
proof -
  assume keys: "map fst d1 = map fst d2"
  then have "d1 = [] \<longleftrightarrow> d2 = []" by (metis map_is_Nil_conv)
  with keys show ?thesis
    by (simp add: filterCompanies_def Object_keys_def Object_values_def Let_def)
qed

theorem filterCompanies_clause_from_keys_witness:
  \<open>map fst [(''nameLike'', JStr '''; DROP TABLE x; --'')] = map fst [(''nameLike'', JStr ''net'')]
   \<and> setCols (filterCompanies [(''nameLike'', JStr '''; DROP TABLE x; --'')])
       = setCols (filterCompanies [(''nameLike'', JStr ''net'')])
   \<and> setCols (filterCompanies [(''nameLike'', JStr ''net'')])
       = ''WHERE name ILIKE '%'||$1||'%'' @ [CHR 0x27]
   \<and> values (filterCompanies [(''nameLike'', JStr '''; DROP TABLE x; --'')])
       = [JStr '''; DROP TABLE x; --'']\<close>
  using filterCompanies_clause_from_keys
    [of "[(''nameLike'', JStr '''; DROP TABLE x; --'')]" "[(''nameLike'', JStr ''net'')]"]
  by (simp add: filterCompanies_def Object_keys_def Object_values_def filters_def array_map_def
      filter_fragment_def join_elem_def decimal.simps digit_char_def)

text \<open>
  What the code does for a filter with at least one key: one fragment per key in the order
  of the keys, the fragment of a recognized key at position \<open>K\<close> (counted from 1) is
  the comparison of that key with the placeholder \<^verbatim>\<open>$K\<close>, and the bound values are
  the values of the filter in the same order. For a filter of recognized keys only, the
  clause is these fragments joined with \<^verbatim>\<open>AND\<close> and nothing else.
\<close>

lemma fragments_of_recognized_keys:
  assumes "data \<noteq> []"
  shows "values (filterCompanies data) = map snd data
    \<and> length (filters (map fst data)) = length data
    \<and> setCols (filterCompanies data) = ''WHERE '' @ join (filters (map fst data)) '' AND ''
    \<and> (\<forall>K. 1 \<le> K \<and> K \<le> length data \<and> recognized (fst (data ! (K - 1))) \<longrightarrow>
          filters (map fst data) ! (K - 1) = Some (clause_fragment (fst (data ! (K - 1))) K)
          \<and> values (filterCompanies data) ! (K - 1) = snd (data ! (K - 1)))
    \<and> ((\<forall>k \<in> set (map fst data). recognized k) \<longrightarrow>
          setCols (filterCompanies data) =
            ''WHERE '' @ and_joined
               (map (\<lambda>K. clause_fragment (fst (data ! (K - 1))) K) [1 ..< Suc (length data)]))"
proof -
  have v: "values (filterCompanies data) = map snd data"
    using assms by (simp add: filterCompanies_def Object_keys_def Object_values_def Let_def)
  have l: "length (filters (map fst data)) = length data"
    by (simp add: filters_def array_map_def length_map_from)
  have s: "setCols (filterCompanies data) = ''WHERE '' @ join (filters (map fst data)) '' AND ''"
    using assms by (simp add: filterCompanies_def Object_keys_def Let_def)
  have k: "filters (map fst data) ! (K - 1) = Some (clause_fragment (fst (data ! (K - 1))) K)
      \<and> values (filterCompanies data) ! (K - 1) = snd (data ! (K - 1))"
    if "1 \<le> K" "K \<le> length data" "recognized (fst (data ! (K - 1)))" for K
  proof -
    from that have lt: "K - 1 < length data" by simp
    then have "filters (map fst data) ! (K - 1) = filter_fragment (fst (data ! (K - 1))) (K - 1)"
      by (simp add: filters_def array_map_def nth_map_from)
    with that lt show ?thesis
      by (simp add: filter_fragment_recognized v)
  qed
  have a: "setCols (filterCompanies data) =
      ''WHERE '' @ and_joined
         (map (\<lambda>K. clause_fragment (fst (data ! (K - 1))) K) [1 ..< Suc (length data)])"
    if r: "\<forall>k \<in> set (map fst data). recognized k"
  proof -
    have eq: "map (\<lambda>j. clause_fragment (map fst data ! j) (0 + j + 1)) [0 ..< length (map fst data)]
        = map (\<lambda>K. clause_fragment (fst (data ! (K - 1))) K) [1 ..< Suc (length data)]"
      by (rule nth_equalityI) (simp_all del: upt_Suc)
    have "join (filters (map fst data)) '' AND ''
        = and_joined (map (\<lambda>K. clause_fragment (fst (data ! (K - 1))) K) [1 ..< Suc (length data)])"
      unfolding filters_def array_map_def map_from_recognized [OF r, of 0] eq join_Some ..
    with s show ?thesis by (simp only:)
  qed
  from v l s k a show ?thesis by blast
qed

lemma fragments_of_recognized_keys_example:
  \<open>[(''minEmployees'', JNum (Fin 2)), (''nameLike'', JStr ''net'')] \<noteq> []
   \<and> recognized ''minEmployees'' \<and> recognized ''nameLike''
   \<and> setCols (filterCompanies [(''minEmployees'', JNum (Fin 2)), (''nameLike'', JStr ''net'')])
       = ''WHERE num_employees >= $1 AND name ILIKE '%'||$2||'%'' @ [CHR 0x27]
   \<and> values (filterCompanies [(''minEmployees'', JNum (Fin 2)), (''nameLike'', JStr ''net'')])
       = [JNum (Fin 2), JStr ''net'']
   \<and> filters (map fst [(''minEmployees'', JNum (Fin 2)), (''nameLike'', JStr ''net'')]) ! (2 - 1)
       = Some (clause_fragment ''nameLike'' 2)\<close>
  using fragments_of_recognized_keys
    [of "[(''minEmployees'', JNum (Fin 2)), (''nameLike'', JStr ''net'')]"]
  by (simp add: recognized_def clause_fragment_def placeholder_def decimal.simps digit_char_def
      filterCompanies_def Object_keys_def Object_values_def filters_def array_map_def
      filter_fragment_def join_elem_def)

text \<open>
  Claim C6 asks that, for every filter with at least one key, the \<open>K\<close>th fragment uses
  the placeholder \<^verbatim>\<open>$K\<close> and the placeholders stand one to one with the bound
  values. The code run on \<^verbatim>\<open>{foo: 1, minEmployees: 5}\<close>: the first fragment is
  \<^verbatim>\<open>undefined\<close> and uses no placeholder, the only fragment with a placeholder uses
  \<^verbatim>\<open>$2\<close>, and two values are bound for this one placeholder. The cause is the one
  of claim C1: the callback has no case for a key it does not recognize, while the index
  and \<^verbatim>\<open>Object.values\<close> count every key.
\<close>

theorem filterCompanies_placeholder_misaligned:
  "filters (Object_keys [(''foo'', JNum (Fin 1)), (''minEmployees'', JNum (Fin 5))])
     = [None, Some ''num_employees >= $2'']
   \<and> length (values (filterCompanies [(''foo'', JNum (Fin 1)), (''minEmployees'', JNum (Fin 5))]))
     = 2
   \<and> setCols (filterCompanies [(''foo'', JNum (Fin 1)), (''minEmployees'', JNum (Fin 5))])
     \<noteq> ''WHERE '' @ and_joined [clause_fragment ''minEmployees'' 1]"
  by (simp add: filterCompanies_def Object_keys_def Object_values_def filters_def array_map_def
      filter_fragment_def join_elem_def clause_fragment_def placeholder_def decimal.simps
      digit_char_def)

section \<open>The filtered find\<close>

text \<open>
  Claim C4. When the filter carries both bounds, two numbers with
  \<^verbatim>\<open>minEmployees\<close> greater than \<^verbatim>\<open>maxEmployees\<close>, \<^verbatim>\<open>findAll\<close> throws its
  \<^verbatim>\<open>BadRequestError\<close> (the specification's invalid range error) and the list of store
  calls is as it was: no clause was built and the store was not called. When the lower bound
  is at most the upper bound, or one of the two keys is missing, it does not throw: it
  builds the clause and calls the store once.
\<close>

theorem findAll_range_check:
  "(map_of fltr ''minEmployees'' = Some (JNum (Fin lo)) \<and>
    map_of fltr ''maxEmployees'' = Some (JNum (Fin hi)) \<and> hi < lo \<longrightarrow>
      findAll str2num db_query fltr queries =
        (Inl (BadRequestError ''minEmployees must be less than maxEmployees''), queries))
   \<and> ((map_of fltr ''minEmployees'' = Some (JNum (Fin lo)) \<and>
        map_of fltr ''maxEmployees'' = Some (JNum (Fin hi)) \<and> lo \<le> hi)
       \<or> map_of fltr ''minEmployees'' = None \<or> map_of fltr ''maxEmployees'' = None \<longrightarrow>
      findAll str2num db_query fltr queries =
        (Inr (db_query (select_companies (setCols (filterCompanies fltr)))
                       (values (filterCompanies fltr))),
         queries @ [(select_companies (setCols (filterCompanies fltr)),
                     values (filterCompanies fltr))]))"
proof -
  have raised: "findAll str2num db_query fltr queries =
        (Inl (BadRequestError ''minEmployees must be less than maxEmployees''), queries)"
    if "map_of fltr ''minEmployees'' = Some (JNum (Fin lo))"
       "map_of fltr ''maxEmployees'' = Some (JNum (Fin hi))" "hi < lo"
    using that by (simp add: findAll_def get_prop_def)
  have not_gt: "\<not> js_gt str2num (get_prop fltr ''minEmployees'') (get_prop fltr ''maxEmployees'')"
    if "(map_of fltr ''minEmployees'' = Some (JNum (Fin lo)) \<and>
        map_of fltr ''maxEmployees'' = Some (JNum (Fin hi)) \<and> lo \<le> hi)
       \<or> map_of fltr ''minEmployees'' = None \<or> map_of fltr ''maxEmployees'' = None"
    using that
    by (auto simp add: get_prop_def js_gt_undefined_left js_gt_undefined_right num_lt_NaN_right)
  then have queried: "findAll str2num db_query fltr queries =
        (Inr (db_query (select_companies (setCols (filterCompanies fltr)))
                       (values (filterCompanies fltr))),
         queries @ [(select_companies (setCols (filterCompanies fltr)),
                     values (filterCompanies fltr))])"
    if "(map_of fltr ''minEmployees'' = Some (JNum (Fin lo)) \<and>
        map_of fltr ''maxEmployees'' = Some (JNum (Fin hi)) \<and> lo \<le> hi)
       \<or> map_of fltr ''minEmployees'' = None \<or> map_of fltr ''maxEmployees'' = None"
    using that by (simp add: findAll_def Let_def)
  from raised queried show ?thesis by blast
qed

theorem findAll_range_check_witness:
  "findAll no_number empty_store
       [(''minEmployees'', JNum (Fin 50)), (''maxEmployees'', JNum (Fin 10))] []
     = (Inl (BadRequestError ''minEmployees must be less than maxEmployees''), [])
   \<and> findAll no_number empty_store
       [(''minEmployees'', JNum (Fin 10)), (''maxEmployees'', JNum (Fin 50))] []
     = (Inr [],
        [(select_companies ''WHERE num_employees >= $1 AND num_employees <=  $2'',
          [JNum (Fin 10), JNum (Fin 50)])])
   \<and> findAll no_number empty_store [(''minEmployees'', JNum (Fin 50))] []
     = (Inr [], [(select_companies ''WHERE num_employees >= $1'', [JNum (Fin 50)])])"
  using
    findAll_range_check [of "[(''minEmployees'', JNum (Fin 50)), (''maxEmployees'', JNum (Fin 10))]"
      50 10 no_number empty_store "[]"]
    findAll_range_check [of "[(''minEmployees'', JNum (Fin 10)), (''maxEmployees'', JNum (Fin 50))]"
      10 50 no_number empty_store "[]"]
    findAll_range_check [of "[(''minEmployees'', JNum (Fin 50))]" 50 10 no_number empty_store "[]"]
  by (simp add: empty_store_def filterCompanies_def Object_keys_def Object_values_def filters_def
      array_map_def filter_fragment_def join_elem_def decimal.simps digit_char_def)

section \<open>The identity extractor\<close>

text \<open>
  Claim C7. Whatever the authorization header is, \<^verbatim>\<open>authenticateJWT\<close> does not throw:
  its outcome is the outcome of the next handler. Without a header (or with an empty one),
  and whenever the verification of the token throws, the next handler gets the response as
  it was, with nothing stored; when the verification returns a payload, the next handler
  gets the response with this payload stored as the user.
\<close>

theorem authenticateJWT_never_raises:
  "(\<exists>res'. authenticateJWT jwt_verify key req res next = next res')
   \<and> (headers_authorization req = None \<or> headers_authorization req = Some [] \<longrightarrow>
        authenticateJWT jwt_verify key req res next = next res)
   \<and> (\<forall>h e. headers_authorization req = Some h \<and>
          jwt_verify (trim (replace_bearer h)) key = Inl e \<longrightarrow>
        authenticateJWT jwt_verify key req res next = next res)
   \<and> (\<forall>h p. headers_authorization req = Some h \<and> h \<noteq> [] \<and>
          jwt_verify (trim (replace_bearer h)) key = Inr p \<longrightarrow>
        authenticateJWT jwt_verify key req res next =
          next (res\<lparr>locals := (locals res)\<lparr>user := Some p\<rparr>\<rparr>))"
  by (auto simp add: authenticateJWT_def Let_def split: option.splits sum.splits)

theorem authenticateJWT_never_raises_witness:
  "authenticateJWT sample_verify ''secret'' \<lparr>headers = Some [], params = []\<rparr>
       \<lparr>locals = \<lparr>user = None\<rparr>\<rparr> Inr
     = Inr \<lparr>locals = \<lparr>user = None\<rparr>\<rparr>
   \<and> authenticateJWT sample_verify ''secret''
       \<lparr>headers = Some [(''authorization'', ''Bearer h.p.x'')], params = []\<rparr>
       \<lparr>locals = \<lparr>user = None\<rparr>\<rparr> Inr
     = Inr \<lparr>locals = \<lparr>user = None\<rparr>\<rparr>
   \<and> authenticateJWT sample_verify ''secret''
       \<lparr>headers = Some [(''authorization'', ''Bearer h.p.s'')], params = []\<rparr>
       \<lparr>locals = \<lparr>user = None\<rparr>\<rparr> Inr
     = Inr \<lparr>locals = \<lparr>user = Some sample_payload\<rparr>\<rparr>"
  using
    authenticateJWT_never_raises [of sample_verify "''secret''"
      "\<lparr>headers = Some [], params = []\<rparr>" "\<lparr>locals = \<lparr>user = None\<rparr>\<rparr>" Inr]
    authenticateJWT_never_raises [of sample_verify "''secret''"
      "\<lparr>headers = Some [(''authorization'', ''Bearer h.p.x'')], params = []\<rparr>"
      "\<lparr>locals = \<lparr>user = None\<rparr>\<rparr>" Inr]
    authenticateJWT_never_raises [of sample_verify "''secret''"
      "\<lparr>headers = Some [(''authorization'', ''Bearer h.p.s'')], params = []\<rparr>"
      "\<lparr>locals = \<lparr>user = None\<rparr>\<rparr>" Inr]
  by (simp add: headers_authorization_def sample_verify_def trim_def is_white_space_def)

text \<open>
  Claim C8 asks that any capitalization of the prefix \<^verbatim>\<open>Bearer\<close> is stripped. The
  pattern \<^verbatim>\<open>/^[Bb]earer /\<close> lets only the first letter vary: under \<^verbatim>\<open>BEARER\<close> the
  whole header value goes to the verifier, which rejects it, and the token that gives
  \<^verbatim>\<open>alice\<close> under \<^verbatim>\<open>Bearer\<close> gives no user.
\<close>

theorem authenticateJWT_uppercase_prefix_counterexample:
  "authenticateJWT sample_verify ''secret''
       \<lparr>headers = Some [(''authorization'', ''Bearer h.p.s'')], params = []\<rparr>
       \<lparr>locals = \<lparr>user = None\<rparr>\<rparr> Inr
     = Inr \<lparr>locals = \<lparr>user = Some sample_payload\<rparr>\<rparr>
   \<and> authenticateJWT sample_verify ''secret''
       \<lparr>headers = Some [(''authorization'', ''BEARER h.p.s'')], params = []\<rparr>
       \<lparr>locals = \<lparr>user = None\<rparr>\<rparr> Inr
     = Inr \<lparr>locals = \<lparr>user = None\<rparr>\<rparr>
   \<and> authenticateJWT sample_verify ''secret''
       \<lparr>headers = Some [(''authorization'', ''BEARER h.p.s'')], params = []\<rparr>
       \<lparr>locals = \<lparr>user = None\<rparr>\<rparr> Inr
     \<noteq> authenticateJWT sample_verify ''secret''
       \<lparr>headers = Some [(''authorization'', ''Bearer h.p.s'')], params = []\<rparr>
       \<lparr>locals = \<lparr>user = None\<rparr>\<rparr> Inr"
  by (simp add: authenticateJWT_def headers_authorization_def sample_verify_def trim_def
      is_white_space_def)

text \<open>
  Claim C8 as amended. Under the prefix \<^verbatim>\<open>Bearer\<close> or \<^verbatim>\<open>bearer\<close> followed by one
  space, the prefix is removed and the rest is trimmed before it is verified; and a
  non-empty token without white space is verified as it is, with the same outcome under
  either prefix and without a prefix.
\<close>

theorem authenticateJWT_bearer_prefix:
  assumes "p = ''Bearer '' \<or> p = ''bearer ''"
  shows "(headers_authorization req = Some (p @ tok) \<longrightarrow>
        authenticateJWT jwt_verify key req res next =
          next (case jwt_verify (trim tok) key of
                  Inl e \<Rightarrow> res
                | Inr pl \<Rightarrow> res\<lparr>locals := (locals res)\<lparr>user := Some pl\<rparr>\<rparr>))
    \<and> (tok \<noteq> [] \<and> (\<forall>c \<in> set tok. \<not> is_white_space c) \<and>
        headers_authorization req = Some (p @ tok) \<and> headers_authorization req' = Some tok \<longrightarrow>
        authenticateJWT jwt_verify key req res next =
          next (case jwt_verify tok key of
                  Inl e \<Rightarrow> res
                | Inr pl \<Rightarrow> res\<lparr>locals := (locals res)\<lparr>user := Some pl\<rparr>\<rparr>)
        \<and> authenticateJWT jwt_verify key req' res next =
            authenticateJWT jwt_verify key req res next)"
proof -
  from assms have ne: "p \<noteq> []" by auto
  have pre: "authenticateJWT jwt_verify key r res next =
          next (case jwt_verify (trim tok) key of
                  Inl e \<Rightarrow> res
                | Inr pl \<Rightarrow> res\<lparr>locals := (locals res)\<lparr>user := Some pl\<rparr>\<rparr>)"
    if "headers_authorization r = Some (p @ tok)" for r
    using that ne replace_bearer_prefix [OF assms, of tok]
    by (simp add: authenticateJWT_def Let_def split: sum.splits)
  have bare: "authenticateJWT jwt_verify key r res next =
          next (case jwt_verify (trim tok) key of
                  Inl e \<Rightarrow> res
                | Inr pl \<Rightarrow> res\<lparr>locals := (locals res)\<lparr>user := Some pl\<rparr>\<rparr>)"
    if "headers_authorization r = Some tok" "tok \<noteq> []" "\<forall>c \<in> set tok. \<not> is_white_space c" for r
    using that replace_bearer_no_space [of tok]
    by (simp add: authenticateJWT_def Let_def split: sum.splits)
  have same: "trim tok = tok" if "\<forall>c \<in> set tok. \<not> is_white_space c"
    using that by (rule trim_no_space)
  from pre bare same show ?thesis by simp
qed

theorem authenticateJWT_bearer_prefix_witness:
  "authenticateJWT sample_verify ''secret''
       \<lparr>headers = Some [(''authorization'', ''bearer h.p.s'')], params = []\<rparr>
       \<lparr>locals = \<lparr>user = None\<rparr>\<rparr> Inr
     = Inr \<lparr>locals = \<lparr>user = Some sample_payload\<rparr>\<rparr>
   \<and> authenticateJWT sample_verify ''secret''
       \<lparr>headers = Some [(''authorization'', ''h.p.s'')], params = []\<rparr>
       \<lparr>locals = \<lparr>user = None\<rparr>\<rparr> Inr
     = authenticateJWT sample_verify ''secret''
       \<lparr>headers = Some [(''authorization'', ''bearer h.p.s'')], params = []\<rparr>
       \<lparr>locals = \<lparr>user = None\<rparr>\<rparr> Inr"
  using authenticateJWT_bearer_prefix [where p = "''bearer ''" and tok = "''h.p.s''"
      and req = "\<lparr>headers = Some [(''authorization'', ''bearer h.p.s'')], params = []\<rparr>"
      and req' = "\<lparr>headers = Some [(''authorization'', ''h.p.s'')], params = []\<rparr>"
      and jwt_verify = sample_verify and key = "''secret''"
      and res = "\<lparr>locals = \<lparr>user = None\<rparr>\<rparr>" and ?next = Inr]
  by (simp add: headers_authorization_def sample_verify_def is_white_space_def trim_def)

section \<open>The authorization checks\<close>

text \<open>
  Claim C9. \<^verbatim>\<open>ensureIsAdmin\<close> hands on to the next handler exactly when a user is
  stored, its \<^verbatim>\<open>isAdmin\<close> is the boolean \<^verbatim>\<open>true\<close> itself and its
  \<^verbatim>\<open>username\<close> is none of the empty (falsy) values, for a string: not the empty string.
  In every other case it throws \<^verbatim>\<open>UnauthorizedError\<close>; so it does for the string
  \<^verbatim>\<open>"true"\<close> and the number 1 as \<^verbatim>\<open>isAdmin\<close>.
\<close>

theorem ensureIsAdmin_exact:
  "ensureIsAdmin req res next =
     (if (\<exists>u. user (locals res) = Some u \<and> isAdmin u = JBool True \<and>
            username u \<notin> {JUndefined, JNull, JBool False, JNum (Fin 0), JNum NaN, JStr []})
      then next res else Inl UnauthorizedError)
   \<and> (\<forall>u. user (locals res) = Some u \<and> (isAdmin u = JStr ''true'' \<or> isAdmin u = JNum (Fin 1))
          \<longrightarrow> ensureIsAdmin req res next = Inl UnauthorizedError)"
  by (cases "user (locals res)")
     (auto simp add: ensureIsAdmin_def js_and_def opt_chain_def js_strict_eq_true js_truthy_iff)

theorem ensureIsAdmin_exact_witness:
  "ensureIsAdmin \<lparr>headers = None, params = []\<rparr>
       \<lparr>locals = \<lparr>user = Some \<lparr>username = JStr ''root'', isAdmin = JBool True\<rparr>\<rparr>\<rparr> Inr
     = Inr \<lparr>locals = \<lparr>user = Some \<lparr>username = JStr ''root'', isAdmin = JBool True\<rparr>\<rparr>\<rparr>
   \<and> ensureIsAdmin \<lparr>headers = None, params = []\<rparr>
       \<lparr>locals = \<lparr>user = Some \<lparr>username = JStr ''root'', isAdmin = JStr ''true''\<rparr>\<rparr>\<rparr>
       (Inr :: response \<Rightarrow> error + response)
     = Inl UnauthorizedError
   \<and> ensureIsAdmin \<lparr>headers = None, params = []\<rparr>
       \<lparr>locals = \<lparr>user = Some \<lparr>username = JStr [], isAdmin = JBool True\<rparr>\<rparr>\<rparr>
       (Inr :: response \<Rightarrow> error + response)
     = Inl UnauthorizedError"
  using
    ensureIsAdmin_exact [of "\<lparr>headers = None, params = []\<rparr>"
      "\<lparr>locals = \<lparr>user = Some \<lparr>username = JStr ''root'', isAdmin = JBool True\<rparr>\<rparr>\<rparr>" Inr]
    ensureIsAdmin_exact [of "\<lparr>headers = None, params = []\<rparr>"
      "\<lparr>locals = \<lparr>user = Some \<lparr>username = JStr ''root'', isAdmin = JStr ''true''\<rparr>\<rparr>\<rparr>"
      "Inr :: response \<Rightarrow> error + response"]
    ensureIsAdmin_exact [of "\<lparr>headers = None, params = []\<rparr>"
      "\<lparr>locals = \<lparr>user = Some \<lparr>username = JStr [], isAdmin = JBool True\<rparr>\<rparr>\<rparr>"
      "Inr :: response \<Rightarrow> error + response"]
  by simp

text \<open>
  Claim C2 asks that \<^verbatim>\<open>ensureIsAdminOrUser\<close> admits an administrator only when
  \<^verbatim>\<open>isAdmin\<close> is the boolean \<^verbatim>\<open>true\<close>. The code tests \<^verbatim>\<open>curUser?.isAdmin\<close>
  for truthiness (its comment \<^verbatim>\<open>TODO: be explicit (===true)\<close> says what is missing, and
  \<^verbatim>\<open>ensureIsAdmin\<close> does compare with \<^verbatim>\<open>=== true\<close>): the user \<^verbatim>\<open>alice\<close> whose
  \<^verbatim>\<open>isAdmin\<close> is the string \<^verbatim>\<open>"true"\<close> is admitted to the route of \<^verbatim>\<open>bob\<close>.
\<close>

theorem ensureIsAdminOrUser_truthy_admin:
  "ensureIsAdminOrUser \<lparr>headers = None, params = [(''username'', ''bob'')]\<rparr>
       \<lparr>locals = \<lparr>user = Some \<lparr>username = JStr ''alice'', isAdmin = JStr ''true''\<rparr>\<rparr>\<rparr> Inr
     = Inr \<lparr>locals = \<lparr>user = Some \<lparr>username = JStr ''alice'', isAdmin = JStr ''true''\<rparr>\<rparr>\<rparr>"
  by (simp add: ensureIsAdminOrUser_def js_or_def opt_chain_def params_username_def)

text \<open>
  Claim C10. With no user stored and no \<^verbatim>\<open>username\<close> path parameter,
  \<^verbatim>\<open>ensureIsAdminOrUser\<close> hands on to the next handler and does not throw: both sides
  of its \<^verbatim>\<open>===\<close> are \<^verbatim>\<open>undefined\<close>.
\<close>

theorem ensureIsAdminOrUser_no_user_no_param:
  "map_of (params req) ''username'' = None \<Longrightarrow> user (locals res) = None \<Longrightarrow>
     ensureIsAdminOrUser req res next = next res"
  by (simp add: ensureIsAdminOrUser_def js_or_def opt_chain_def params_username_def)

theorem ensureIsAdminOrUser_no_user_no_param_witness:
  "map_of (params \<lparr>headers = None, params = []\<rparr>) ''username'' = None
   \<and> user (locals \<lparr>locals = \<lparr>user = None\<rparr>\<rparr>) = None
   \<and> ensureIsAdminOrUser \<lparr>headers = None, params = []\<rparr> \<lparr>locals = \<lparr>user = None\<rparr>\<rparr> Inr
       = Inr \<lparr>locals = \<lparr>user = None\<rparr>\<rparr>"
  using ensureIsAdminOrUser_no_user_no_param
    [of "\<lparr>headers = None, params = []\<rparr>" "\<lparr>locals = \<lparr>user = None\<rparr>\<rparr>" Inr]
  by simp

end
